theory Spec2Isabelle
  imports Complex_Main
begin

section \<open>Data model\<close>

text \<open>
  The program is one module, \<^verbatim>\<open>fastAPI.py\<close>: a settings loader, the class
  \<^verbatim>\<open>StreamingConversationChain\<close> with its dictionary of conversation memories, and
  one endpoint, \<^verbatim>\<open>POST /chat\<close>.  Exceptions are values of type \<open>exn\<close>; a function
  that may raise returns \<open>exn + 'a\<close>.
\<close>

datatype exn = ValidationError | RemoteCallError string

text \<open>A turn of a conversation: role and content.\<close>

datatype chat_message = HumanMessage string | AIMessage string

text \<open>
  Python objects have identity.  A conversation memory is mutated in place by the chain
  while the dictionary \<^verbatim>\<open>self.memories\<close> holds a reference to it, so memory objects live
  in an explicit store and the dictionary maps a conversation identifier to an address.
\<close>

type_synonym addr = nat

type_synonym env = "string \<rightharpoonup> string"

record Settings =
  openai_api_key :: string

text \<open>
  The state behind \<^verbatim>\<open>@lru_cache()\<close> on \<^verbatim>\<open>get_settings\<close>: the cached result of the
  (argument-free) call, and a counter of how often a \<^verbatim>\<open>Settings\<close> object has been
  constructed, which is how often the environment and the environment file were read.
\<close>

record settings_cache =
  cached :: "Settings option"
  env_reads :: nat

text \<open>The arguments of the \<^verbatim>\<open>ChatOpenAI(...)\<close> call of \<^verbatim>\<open>generate_response\<close>.\<close>

record ChatOpenAI =
  streaming :: bool
  llm_temperature :: real
  llm_openai_api_key :: string

text \<open>
  The remote generation call is a parameter of the model: the call the chain makes
  through the client object, whatever the client library does inside it.  It receives the
  configuration of the client object, the number of calls made before this one (the provider may answer
  the same prompt differently, or fail, from one call to the next), and the variable parts
  of \<^verbatim>\<open>CHAT_PROMPT_TEMPLATE\<close>: the messages of the \<^verbatim>\<open>history\<close> placeholder and the
  \<^verbatim>\<open>input\<close> (the system instruction of the template is a fixed text).  It answers with
  the token fragments in the order it produced them, and with the exception it ended with,
  if any.
\<close>

type_synonym remote =
  "ChatOpenAI \<Rightarrow> nat \<Rightarrow> chat_message list \<Rightarrow> string \<Rightarrow> string list \<times> exn option"

record store =
  heap :: "addr \<Rightarrow> chat_message list"
  next_addr :: addr
  llm_calls :: nat

record StreamingConversationChain =
  memories :: "string \<rightharpoonup> addr"
  chain_openai_api_key :: string
  temperature :: real

record ChatRequest =
  conversation_id :: string
  message :: string

text \<open>
  What the endpoint returns: a status, a media type and the suspended body generator.
  Calling an \<^verbatim>\<open>async def\<close> generator function runs none of its body; the body runs
  when the response is sent, on the chain object and the store as they are then.
\<close>

record StreamingResponse =
  status_code :: nat
  media_type :: string
  body_iterator :: "StreamingConversationChain \<Rightarrow> store \<Rightarrow>
    (string list \<times> exn option) \<times> StreamingConversationChain \<times> store"

section \<open>Settings\<close>

text \<open>
  Modelled from the spec: the constructor of \<^verbatim>\<open>Settings\<close> is inherited from pydantic's
  \<^verbatim>\<open>BaseSettings\<close>, which is not in the source.  The spec: "one required setting, a
  provider API key, sourced from environment or an environment file", and "a missing
  required configuration value prevents the server from starting".  The environment is
  looked up first, then the file \<^verbatim>\<open>.env\<close>; the field has no default.
\<close>

definition Settings_init :: "env \<Rightarrow> env \<Rightarrow> exn + Settings" where
  "Settings_init environ dotenv =
     (case environ ''openai_api_key'' of
        Some v \<Rightarrow> Inr \<lparr>openai_api_key = v\<rparr>
      | None \<Rightarrow>
          (case dotenv ''openai_api_key'' of
             Some v \<Rightarrow> Inr \<lparr>openai_api_key = v\<rparr>
           | None \<Rightarrow> Inl ValidationError))"

text \<open>
  \<^verbatim>\<open>get_settings\<close> under \<^verbatim>\<open>@lru_cache()\<close>: a cached result is returned as it is; else
  the body runs, and its result is cached only when it returns (an exception is not
  cached).
\<close>

definition get_settings :: "env \<Rightarrow> env \<Rightarrow> settings_cache \<Rightarrow> (exn + Settings) \<times> settings_cache" where
  "get_settings environ dotenv c =
     (case cached c of
        Some s \<Rightarrow> (Inr s, c)
      | None \<Rightarrow>
          (case Settings_init environ dotenv of
             Inl e \<Rightarrow> (Inl e, c\<lparr>env_reads := Suc (env_reads c)\<rparr>)
           | Inr s \<Rightarrow> (Inr s, \<lparr>cached = Some s, env_reads = Suc (env_reads c)\<rparr>)))"

section \<open>The conversation chain\<close>

definition StreamingConversationChain_init :: "string \<Rightarrow> real \<Rightarrow> StreamingConversationChain" where
  "StreamingConversationChain_init key temp =
     \<lparr>memories = Map.empty, chain_openai_api_key = key, temperature = temp\<rparr>"

text \<open>
  Modelled from the spec: \<^verbatim>\<open>ConversationBufferMemory\<close> and \<^verbatim>\<open>ConversationChain\<close> come
  from the LangChain library, which is not in the source.  The spec: a conversation memory
  is "an ordered sequence of prior message turns (role + content)", "created lazily on
  first use"; the request "submit[s] the message plus accumulated history to a remote
  generation call" and "append[s] the completed exchange to the memory slot for future
  turns".  A new memory object is allocated at a fresh address and is empty.
\<close>

definition ConversationBufferMemory_new :: "store \<Rightarrow> addr \<times> store" where
  "ConversationBufferMemory_new s =
     (next_addr s, s\<lparr>heap := (heap s)(next_addr s := []), next_addr := Suc (next_addr s)\<rparr>)"

definition save_context :: "addr \<Rightarrow> string \<Rightarrow> string \<Rightarrow> store \<Rightarrow> store" where
  "save_context m inp out s =
     s\<lparr>heap := (heap s)(m := heap s m @ [HumanMessage inp, AIMessage out])\<rparr>"

text \<open>
  Modelled from the spec: one run of the chain, \<^verbatim>\<open>chain.arun(input=message)\<close>, seen
  together with the callback handler that receives its tokens.  The history is read from
  the memory object, the remote call is made once, and the exchange is appended to the
  memory object only when the call completed; the response text of the model is the
  concatenation of its token fragments.  The result is the tokens the iterator of the
  callback handler yields, in order, and the exception of the run, if any.
\<close>

definition arun :: "remote \<Rightarrow> ChatOpenAI \<Rightarrow> addr \<Rightarrow> string \<Rightarrow> store \<Rightarrow>
    (string list \<times> exn option) \<times> store" where
  "arun rem llm m inp s =
     (let history = heap s m;
          (tokens, err) = rem llm (llm_calls s) history inp;
          s1 = s\<lparr>llm_calls := Suc (llm_calls s)\<rparr>
      in case err of
           None \<Rightarrow> ((tokens, None), save_context m inp (concat tokens) s1)
         | Some e \<Rightarrow> ((tokens, Some e), s1))"

text \<open>
  Lines 111 to 114 of \<^verbatim>\<open>generate_response\<close>:
  \<^verbatim>\<open>memory = self.memories.get(conversation_id)\<close>, and when that is \<^verbatim>\<open>None\<close> a new
  memory is made and stored under the identifier.
\<close>

definition get_or_create_memory :: "StreamingConversationChain \<Rightarrow> string \<Rightarrow> store \<Rightarrow>
    addr \<times> StreamingConversationChain \<times> store" where
  "get_or_create_memory self cid s =
     (case memories self cid of
        None \<Rightarrow>
          (let (m, s1) = ConversationBufferMemory_new s
           in (m, self\<lparr>memories := (memories self)(cid \<mapsto> m)\<rparr>, s1))
      | Some m \<Rightarrow> (m, self, s))"

text \<open>
  The method \<^verbatim>\<open>StreamingConversationChain.generate_response\<close>, run to its end: the
  client object is configured, the memory is looked up or created, the chain runs, every
  token of the callback handler is yielded as it is, and \<^verbatim>\<open>await run\<close> re-raises the
  exception of the run.  The result is the list of yielded strings, in order, and the
  exception the generator ended with, if any.
\<close>

definition llm_of :: "StreamingConversationChain \<Rightarrow> ChatOpenAI" where
  "llm_of self =
     \<lparr>streaming = True, llm_temperature = temperature self,
      llm_openai_api_key = chain_openai_api_key self\<rparr>"

definition generate_response :: "remote \<Rightarrow> StreamingConversationChain \<Rightarrow> string \<Rightarrow> string \<Rightarrow>
    store \<Rightarrow> (string list \<times> exn option) \<times> StreamingConversationChain \<times> store" where
  "generate_response rem self cid msg s =
     (let llm = llm_of self;
          (memory, self1, s1) = get_or_create_memory self cid s;
          (out, s2) = arun rem llm memory msg s1
      in (out, self1, s2))"

text \<open>
  The history stored under an identifier, if the identifier has a memory slot, and the
  history a request under that identifier starts from (empty when there is no slot yet).
\<close>

definition history_of :: "StreamingConversationChain \<Rightarrow> store \<Rightarrow> string \<Rightarrow> chat_message list" where
  "history_of self s cid = (case memories self cid of None \<Rightarrow> [] | Some m \<Rightarrow> heap s m)"

definition slot :: "StreamingConversationChain \<Rightarrow> store \<Rightarrow> string \<Rightarrow> chat_message list option" where
  "slot self s cid = map_option (heap s) (memories self cid)"

text \<open>
  The invariant of the store: every address in the dictionary has been allocated, and
  no two identifiers share a memory object.
\<close>

definition store_ok :: "StreamingConversationChain \<Rightarrow> store \<Rightarrow> bool" where
  "store_ok self s \<longleftrightarrow>
     (\<forall>k a. memories self k = Some a \<longrightarrow> a < next_addr s) \<and>
     (\<forall>k k' a. memories self k = Some a \<and> memories self k' = Some a \<longrightarrow> k = k')"

section \<open>The application\<close>

text \<open>
  The endpoint \<^verbatim>\<open>generate_response\<close> of \<^verbatim>\<open>POST /chat\<close>.  It wraps the generator of
  the module's chain object in a \<^verbatim>\<open>StreamingResponse\<close> and returns; no status is given,
  so the status is the default of the response class, 200.
\<close>

definition generate_response_endpoint :: "remote \<Rightarrow> ChatRequest \<Rightarrow> StreamingResponse" where
  "generate_response_endpoint rem data =
     \<lparr>status_code = 200, media_type = ''text/event-stream'',
      body_iterator = (\<lambda>self s. generate_response rem self (conversation_id data) (message data) s)\<rparr>"

record process =
  settings :: settings_cache
  streaming_conversation_chain :: StreamingConversationChain
  objects :: store

definition empty_store :: store where
  "empty_store = \<lparr>heap = (\<lambda>_. []), next_addr = 0, llm_calls = 0\<rparr>"

text \<open>
  Running the module: \<^verbatim>\<open>streaming_conversation_chain\<close> is built from
  \<^verbatim>\<open>get_settings().openai_api_key\<close> at import time, with the default temperature.  An
  exception of \<^verbatim>\<open>get_settings\<close> is not caught: the import fails and there is no
  application.
\<close>

definition module_init :: "env \<Rightarrow> env \<Rightarrow> exn + process" where
  "module_init environ dotenv =
     (case get_settings environ dotenv \<lparr>cached = None, env_reads = 0\<rparr> of
        (Inl e, c) \<Rightarrow> Inl e
      | (Inr st, c) \<Rightarrow>
          Inr \<lparr>settings = c,
               streaming_conversation_chain = StreamingConversationChain_init (openai_api_key st) 0,
               objects = empty_store\<rparr>)"

text \<open>
  What the caller of \<^verbatim>\<open>POST /chat\<close> receives: the status, the chunks of the body in
  the order they were sent, and the exception that cut the body short, if any.
\<close>

record exchange =
  status :: nat
  chunks :: "string list"
  aborted :: "exn option"

definition body :: "exchange \<Rightarrow> string" where
  "body x = concat (chunks x)"

text \<open>
  One request served by the application.  The dependency \<^verbatim>\<open>Depends(get_settings)\<close> of
  the application is resolved first; then the endpoint runs and returns its response;
  then the response is sent: the status first, then the strings of the body generator,
  one chunk each.  An exception before the endpoint has returned leaves no response of
  the application's (left value).
\<close>

definition serve_chat :: "remote \<Rightarrow> env \<Rightarrow> env \<Rightarrow> ChatRequest \<Rightarrow> process \<Rightarrow>
    (exn + exchange) \<times> process" where
  "serve_chat rem environ dotenv data p =
     (case get_settings environ dotenv (settings p) of
        (Inl e, c) \<Rightarrow> (Inl e, p\<lparr>settings := c\<rparr>)
      | (Inr st, c) \<Rightarrow>
          (let resp = generate_response_endpoint rem data;
               ((toks, err), self1, s1) =
                  body_iterator resp (streaming_conversation_chain p) (objects p)
           in (Inr \<lparr>status = status_code resp, chunks = toks, aborted = err\<rparr>,
               p\<lparr>settings := c, streaming_conversation_chain := self1, objects := s1\<rparr>)))"

text \<open>A sequence of requests, each served to its end before the next.\<close>

fun serve_all :: "remote \<Rightarrow> env \<Rightarrow> env \<Rightarrow> ChatRequest list \<Rightarrow> process \<Rightarrow> process" where
  "serve_all rem environ dotenv [] p = p"
| "serve_all rem environ dotenv (d # ds) p =
     serve_all rem environ dotenv ds (snd (serve_chat rem environ dotenv d p))"

text \<open>
  The process from its start: the module is run, and only if that succeeds are requests
  served.
\<close>

definition run_process :: "remote \<Rightarrow> env \<Rightarrow> env \<Rightarrow> ChatRequest list \<Rightarrow> exn + process" where
  "run_process rem environ dotenv ds =
     (case module_init environ dotenv of
        Inl e \<Rightarrow> Inl e
      | Inr p \<Rightarrow> Inr (serve_all rem environ dotenv ds p))"

text \<open>
  The body of a \<^verbatim>\<open>POST /chat\<close> request as the JSON object it carries: its
  string-valued fields, by name.  A body is malformed when a field that \<^verbatim>\<open>ChatRequest\<close>
  declares is not among them.
\<close>

type_synonym request_body = "string \<rightharpoonup> string"

text \<open>
  The class \<^verbatim>\<open>ChatRequest\<close> (lines 130 to 136) declares two required string fields,
  and the endpoint takes its argument \<^verbatim>\<open>data: ChatRequest\<close> from the request body.
  The framework (FastAPI, not in the source) validates the body against the class before
  it calls the endpoint; the result is the request object, or the validation errors, here
  the names of the missing fields in the order of their declaration.
\<close>

definition ChatRequest_validate :: "request_body \<Rightarrow> string list + ChatRequest" where
  "ChatRequest_validate raw =
     (case (raw ''conversation_id'', raw ''message'') of
        (Some c, Some m) \<Rightarrow> Inr \<lparr>conversation_id = c, message = m\<rparr>
      | _ \<Rightarrow> Inl (filter (\<lambda>f. raw f = None) [''conversation_id'', ''message'']))"

text \<open>
  What the caller of \<^verbatim>\<open>POST /chat\<close> is answered: the streamed response of the
  endpoint, or the answer of the framework to a body that failed validation, a status and
  the structured list of validation errors.
\<close>

datatype reply = Streamed exchange | Unprocessable nat "string list"

text \<open>
  One HTTP request to \<^verbatim>\<open>POST /chat\<close>.  A body that fails validation is answered by
  the framework itself, with status 422 and the validation errors, once the dependency of
  the application is resolved; the endpoint is not called.  A valid body is served as
  above.
\<close>

definition post_chat :: "remote \<Rightarrow> env \<Rightarrow> env \<Rightarrow> request_body \<Rightarrow> process \<Rightarrow>
    (exn + reply) \<times> process" where
  "post_chat rem environ dotenv raw p =
     (case ChatRequest_validate raw of
        Inl errors \<Rightarrow>
          (case get_settings environ dotenv (settings p) of
             (Inl e, c) \<Rightarrow> (Inl e, p\<lparr>settings := c\<rparr>)
           | (Inr st, c) \<Rightarrow> (Inr (Unprocessable 422 errors), p\<lparr>settings := c\<rparr>))
      | Inr data \<Rightarrow>
          (case serve_chat rem environ dotenv data p of
             (Inl e, p1) \<Rightarrow> (Inl e, p1)
           | (Inr x, p1) \<Rightarrow> (Inr (Streamed x), p1)))"

text \<open>The invariant, for the state of a process.\<close>

definition process_ok :: "process \<Rightarrow> bool" where
  "process_ok p \<longleftrightarrow> store_ok (streaming_conversation_chain p) (objects p)"

text \<open>The history a request under an identifier starts from, in a process.\<close>

definition process_history :: "process \<Rightarrow> string \<Rightarrow> chat_message list" where
  "process_history p k = history_of (streaming_conversation_chain p) (objects p) k"

section \<open>Test doubles\<close>

text \<open>
  Stubbed model backends and a small configuration, for running the definitions on
  concrete requests: a backend that answers with one \<^verbatim>\<open>+\<close> per message of the
  history it was given, followed by the input; a backend that fails after one fragment; a
  backend whose only fragment is the empty string; a backend that fails on the first call
  made to it and answers every later one.
\<close>

definition stub_counting :: remote where
  "stub_counting llm n history inp = (replicate (length history) ''+'' @ [inp], None)"

definition stub_failing :: remote where
  "stub_failing llm n history inp = ([''Hel''], Some (RemoteCallError ''timeout''))"

definition stub_blank :: remote where
  "stub_blank llm n history inp = ([''''], None)"

definition stub_flaky :: remote where
  "stub_flaky llm n history inp =
     (if n = 0 then ([''Hel''], Some (RemoteCallError ''timeout'')) else ([''Hello''], None))"

definition chain0 :: StreamingConversationChain where
  "chain0 = StreamingConversationChain_init ''sk-test'' 0"

definition environ0 :: env where
  "environ0 = [''openai_api_key'' \<mapsto> ''sk-test'']"

definition process0 :: process where
  "process0 = projr (module_init environ0 Map.empty)"

definition after_cat ::
    "(string list \<times> exn option) \<times> StreamingConversationChain \<times> store" where
  "after_cat = generate_response stub_counting chain0 ''cat'' ''hello'' empty_store"

section \<open>What one request does\<close>


lemma generate_response_new:
  "memories self cid = None \<Longrightarrow>
   generate_response rem self cid msg s =
     (let m = next_addr s;
          r = rem (llm_of self) (llm_calls s) [] msg;
          s1 = s\<lparr>heap := (heap s)(m := []), next_addr := Suc m, llm_calls := Suc (llm_calls s)\<rparr>
      in (r, self\<lparr>memories := (memories self)(cid \<mapsto> m)\<rparr>,
          case snd r of None \<Rightarrow> save_context m msg (concat (fst r)) s1 | Some e \<Rightarrow> s1))"
  by (simp add: generate_response_def get_or_create_memory_def ConversationBufferMemory_new_def
      arun_def Let_def save_context_def split: prod.splits option.splits)

lemma generate_response_old:
  "memories self cid = Some m \<Longrightarrow>
   generate_response rem self cid msg s =
     (let r = rem (llm_of self) (llm_calls s) (heap s m) msg;
          s1 = s\<lparr>llm_calls := Suc (llm_calls s)\<rparr>
      in (r, self, case snd r of None \<Rightarrow> save_context m msg (concat (fst r)) s1 | Some e \<Rightarrow> s1))"
  by (simp add: generate_response_def get_or_create_memory_def
      arun_def Let_def save_context_def split: prod.splits option.splits)

lemma generate_response_out:
  "fst (generate_response rem self cid msg s) =
     rem (llm_of self) (llm_calls s) (history_of self s cid) msg"
  by (cases "memories self cid")
     (simp_all add: generate_response_new generate_response_old history_of_def Let_def)

lemma generate_response_memories:
  "memories (fst (snd (generate_response rem self cid msg s))) =
     (case memories self cid of None \<Rightarrow> (memories self)(cid \<mapsto> next_addr s) | Some m \<Rightarrow> memories self)"
  by (cases "memories self cid")
     (simp_all add: generate_response_new generate_response_old Let_def)

lemma generate_response_calls:
  "llm_calls (snd (snd (generate_response rem self cid msg s))) = Suc (llm_calls s)"
  by (cases "memories self cid")
     (simp_all add: generate_response_new generate_response_old Let_def save_context_def split: option.splits)

lemma generate_response_next_addr:
  "next_addr (snd (snd (generate_response rem self cid msg s))) =
     (case memories self cid of None \<Rightarrow> Suc (next_addr s) | Some m \<Rightarrow> next_addr s)"
  by (cases "memories self cid")
     (simp_all add: generate_response_new generate_response_old Let_def save_context_def split: option.splits)

lemma generate_response_config:
  "llm_of (fst (snd (generate_response rem self cid msg s))) = llm_of self"
  by (cases "memories self cid")
     (simp_all add: generate_response_new generate_response_old Let_def llm_of_def)


lemma generate_response_heap_other:
  assumes "store_ok self s" "memories self k = Some a" "k \<noteq> cid"
  shows "heap (snd (snd (generate_response rem self cid msg s))) a = heap s a"
proof (cases "memories self cid")
  case None
  from assms have "a \<noteq> next_addr s" unfolding store_ok_def by fastforce
  with None show ?thesis
    by (simp add: generate_response_new Let_def save_context_def split: option.splits)
next
  case (Some m)
  from assms Some have "a \<noteq> m" unfolding store_ok_def by blast
  with Some show ?thesis
    by (simp add: generate_response_old Let_def save_context_def split: option.splits)
qed

lemma ok_init: "store_ok (StreamingConversationChain_init key temp) empty_store"
  by (simp add: store_ok_def StreamingConversationChain_init_def)

lemma ok_generate_response:
  assumes "store_ok self s"
  shows "store_ok (fst (snd (generate_response rem self cid msg s)))
            (snd (snd (generate_response rem self cid msg s)))"
proof (cases "memories self cid")
  case None
  have fresh: "\<And>k a. memories self k = Some a \<Longrightarrow> a < next_addr s"
    using assms unfolding store_ok_def by blast
  have inj: "\<And>k k' a. memories self k = Some a \<Longrightarrow> memories self k' = Some a \<Longrightarrow> k = k'"
    using assms unfolding store_ok_def by blast
  show ?thesis
    unfolding store_ok_def generate_response_memories generate_response_next_addr None
    using fresh inj by (auto simp: less_Suc_eq split: if_splits)
next
  case (Some m)
  show ?thesis
    unfolding store_ok_def generate_response_memories generate_response_next_addr Some
    using assms unfolding store_ok_def by simp
qed


lemma serve_chat_unfold:
  "serve_chat rem E F d p =
    (case get_settings E F (settings p) of
       (Inl e, c) \<Rightarrow> (Inl e, p\<lparr>settings := c\<rparr>)
     | (Inr st, c) \<Rightarrow>
        (let g = generate_response rem (streaming_conversation_chain p) (conversation_id d) (message d) (objects p)
         in (Inr \<lparr>status = 200, chunks = fst (fst g), aborted = snd (fst g)\<rparr>,
             p\<lparr>settings := c, streaming_conversation_chain := fst (snd g), objects := snd (snd g)\<rparr>)))"
  by (simp add: serve_chat_def generate_response_endpoint_def Let_def split: prod.splits sum.splits)

lemma ok_serve_chat: "process_ok p \<Longrightarrow> process_ok (snd (serve_chat rem E F d p))"
  by (auto simp: serve_chat_unfold process_ok_def Let_def ok_generate_response split: prod.splits sum.splits)

lemma ok_serve_all: "process_ok p \<Longrightarrow> process_ok (serve_all rem E F ds p)"
  by (induction ds arbitrary: p) (simp_all add: ok_serve_chat)

lemma ok_module_init: "module_init E F = Inr p \<Longrightarrow> process_ok p"
  by (auto simp: module_init_def process_ok_def ok_init split: prod.splits sum.splits)

lemma ok_run_process: "run_process rem E F ds = Inr p \<Longrightarrow> process_ok p"
  by (auto simp: run_process_def ok_module_init ok_serve_all split: sum.splits)

lemmas eval_defs = generate_response_def get_or_create_memory_def arun_def
  ConversationBufferMemory_new_def save_context_def llm_of_def Let_def
  StreamingConversationChain_init_def empty_store_def chain0_def
  stub_counting_def stub_failing_def stub_blank_def slot_def history_of_def

lemmas process_defs = module_init_def get_settings_def Settings_init_def environ0_def
  process0_def serve_chat_unfold run_process_def

lemma after_cat_ok: "store_ok (fst (snd after_cat)) (snd (snd after_cat))"
  unfolding after_cat_def chain0_def by (rule ok_generate_response [OF ok_init])

lemma serve_chat_memories:
  "memories (streaming_conversation_chain p) k = Some a \<Longrightarrow>
   memories (streaming_conversation_chain (snd (serve_chat rem E F d p))) k = Some a"
  by (auto simp: serve_chat_unfold Let_def generate_response_memories
      split: prod.splits sum.splits option.splits)

lemma get_settings_cached:
  "cached c = Some st \<Longrightarrow> get_settings E F c = (Inr st, c)"
  by (simp add: get_settings_def)

lemma serve_chat_settings:
  "cached (settings p) = Some st \<Longrightarrow> settings (snd (serve_chat rem E F d p)) = settings p"
  by (simp add: serve_chat_unfold get_settings_cached Let_def)

lemma serve_all_settings:
  "cached (settings p) = Some st \<Longrightarrow> settings (serve_all rem E F ds p) = settings p"
  by (induction ds arbitrary: p) (simp_all add: serve_chat_settings)

lemma validate_errors:
  "ChatRequest_validate raw = Inl errors \<Longrightarrow>
   errors = filter (\<lambda>f. raw f = None) [''conversation_id'', ''message'']"
  by (auto simp: ChatRequest_validate_def split: option.splits)

lemma validate_errors_nonempty: "ChatRequest_validate raw = Inl errors \<Longrightarrow> errors \<noteq> []"
  by (auto simp: ChatRequest_validate_def split: option.splits)

section \<open>Histories only grow\<close>

lemma history_other:
  assumes "store_ok self s" "k \<noteq> cid"
  shows "history_of (fst (snd (generate_response rem self cid msg s)))
           (snd (snd (generate_response rem self cid msg s))) k = history_of self s k"
proof (cases "memories self k")
  case None
  with assms show ?thesis
    by (simp add: history_of_def generate_response_memories split: option.splits)
next
  case (Some a)
  with assms generate_response_heap_other [OF assms(1) Some assms(2), of rem msg]
  show ?thesis
    by (simp add: history_of_def generate_response_memories split: option.splits)
qed

lemma history_same:
  "history_of (fst (snd (generate_response rem self cid msg s)))
      (snd (snd (generate_response rem self cid msg s))) cid =
   history_of self s cid @
     (case snd (fst (generate_response rem self cid msg s)) of
        None \<Rightarrow> [HumanMessage msg, AIMessage (concat (fst (fst (generate_response rem self cid msg s))))]
      | Some e \<Rightarrow> [])"
  by (cases "memories self cid")
     (auto simp: generate_response_new generate_response_old Let_def history_of_def
        save_context_def split: option.splits prod.splits)

lemma serve_chat_history_other:
  assumes "process_ok p" "conversation_id d \<noteq> k"
  shows "process_history (snd (serve_chat rem E F d p)) k = process_history p k"
  using assms history_other [of "streaming_conversation_chain p" "objects p" k "conversation_id d"
      rem "message d"]
  by (auto simp: serve_chat_unfold process_history_def process_ok_def Let_def
      split: prod.splits sum.splits)

lemma serve_chat_history_grows:
  assumes "process_ok p"
  shows "\<exists>rest. process_history (snd (serve_chat rem E F d p)) k = process_history p k @ rest"
proof (cases "conversation_id d = k")
  case False
  with assms show ?thesis by (simp add: serve_chat_history_other)
next
  case True
  then show ?thesis
    using history_same [of rem "streaming_conversation_chain p" "conversation_id d" "message d"
        "objects p"]
    by (auto simp: serve_chat_unfold process_history_def Let_def split: prod.splits sum.splits)
qed

lemma serve_all_history_grows:
  "process_ok p \<Longrightarrow>
   \<exists>rest. process_history (serve_all rem E F ds p) k = process_history p k @ rest"
proof (induction ds arbitrary: p)
  case Nil
  then show ?case by simp
next
  case (Cons d ds)
  from Cons.prems obtain r1 where
    r1: "process_history (snd (serve_chat rem E F d p)) k = process_history p k @ r1"
    using serve_chat_history_grows by blast
  from Cons.prems have "process_ok (snd (serve_chat rem E F d p))" by (rule ok_serve_chat)
  from Cons.IH [OF this] obtain r2 where
    "process_history (serve_all rem E F ds (snd (serve_chat rem E F d p))) k =
       process_history (snd (serve_chat rem E F d p)) k @ r2" by blast
  with r1 show ?case by simp
qed

lemma serve_all_history_other:
  "process_ok p \<Longrightarrow> \<forall>d \<in> set ds. conversation_id d \<noteq> k \<Longrightarrow>
   process_history (serve_all rem E F ds p) k = process_history p k"
  by (induction ds arbitrary: p) (simp_all add: serve_chat_history_other ok_serve_chat)

lemma serve_chat_result:
  assumes "serve_chat rem E F d p = (Inr x, p1)"
  shows "(chunks x, aborted x) =
           rem (llm_of (streaming_conversation_chain p)) (llm_calls (objects p))
             (process_history p (conversation_id d)) (message d)"
    and "process_history p1 (conversation_id d) =
           process_history p (conversation_id d) @
             (case aborted x of None \<Rightarrow> [HumanMessage (message d), AIMessage (body x)]
              | Some e \<Rightarrow> [])"
    and "process_ok p \<Longrightarrow> process_ok p1"
proof -
  let ?g = "generate_response rem (streaming_conversation_chain p) (conversation_id d)
      (message d) (objects p)"
  from assms have x: "x = \<lparr>status = 200, chunks = fst (fst ?g), aborted = snd (fst ?g)\<rparr>"
    and c: "streaming_conversation_chain p1 = fst (snd ?g)" and o: "objects p1 = snd (snd ?g)"
    by (auto simp: serve_chat_unfold Let_def split: prod.splits sum.splits)
  from x show "(chunks x, aborted x) =
           rem (llm_of (streaming_conversation_chain p)) (llm_calls (objects p))
             (process_history p (conversation_id d)) (message d)"
    by (simp add: process_history_def generate_response_out)
  from x c o show "process_history p1 (conversation_id d) =
           process_history p (conversation_id d) @
             (case aborted x of None \<Rightarrow> [HumanMessage (message d), AIMessage (body x)]
              | Some e \<Rightarrow> [])"
    by (simp add: process_history_def body_def history_same split: option.splits)
  show "process_ok p \<Longrightarrow> process_ok p1"
    using ok_serve_chat [of p rem E F d] assms by simp
qed

section \<open>Claims\<close>

text \<open>
  C1: memory accumulates across requests.  In a started process, after any requests, let
  a first request under an identifier complete (its body stream ends without an
  exception), let any further requests be served, and let a second request under the same
  identifier follow.  The history handed to the generation call of the second request is
  the history the first request started from, then the first request's message and the
  model's response to it (the body of the first response), then whatever the requests in
  between appended; nothing, if none of them carried the identifier.
\<close>

theorem memory_accumulates:
  assumes start: "run_process rem E F ds0 = Inr p"
    and first: "serve_chat rem E F d1 p = (Inr x1, p1)"
    and completed: "aborted x1 = None"
    and later: "p2 = serve_all rem E F ds p1"
    and second: "serve_chat rem E F d2 p2 = (Inr x2, p3)"
    and same: "conversation_id d2 = conversation_id d1"
  shows "\<exists>rest.
           (chunks x2, aborted x2) =
             rem (llm_of (streaming_conversation_chain p2)) (llm_calls (objects p2))
               (process_history p (conversation_id d1) @
                  [HumanMessage (message d1), AIMessage (body x1)] @ rest)
               (message d2) \<and>
           ((\<forall>d \<in> set ds. conversation_id d \<noteq> conversation_id d1) \<longrightarrow> rest = [])"
proof -
  let ?k = "conversation_id d1"
  let ?h1 = "process_history p ?k @ [HumanMessage (message d1), AIMessage (body x1)]"
  from start have ok: "process_ok p" by (rule ok_run_process)
  from serve_chat_result(2) [OF first] completed
  have h1: "process_history p1 ?k = ?h1" by simp
  from serve_chat_result(3) [OF first ok] have ok1: "process_ok p1" .
  from serve_all_history_grows [OF ok1, of rem E F ds ?k] later h1
  obtain rest0 where grow: "process_history p2 ?k = ?h1 @ rest0" by auto
  define rest where "rest = drop (length ?h1) (process_history p2 ?k)"
  from grow have p2: "process_history p2 ?k = ?h1 @ rest" by (simp add: rest_def)
  have "(\<forall>d \<in> set ds. conversation_id d \<noteq> ?k) \<longrightarrow> rest = []"
  proof
    assume "\<forall>d \<in> set ds. conversation_id d \<noteq> ?k"
    from serve_all_history_other [OF ok1 this, of rem E F] later h1
    show "rest = []" by (simp add: rest_def)
  qed
  moreover from serve_chat_result(1) [OF second] same p2
  have "(chunks x2, aborted x2) =
      rem (llm_of (streaming_conversation_chain p2)) (llm_calls (objects p2))
        (?h1 @ rest) (message d2)" by simp
  ultimately show ?thesis by auto
qed

theorem memory_accumulates_witness:
  "run_process stub_counting environ0 Map.empty [] = Inr process0 \<and>
   fst (serve_chat stub_counting environ0 Map.empty
          \<lparr>conversation_id = ''cat'', message = ''hello''\<rparr> process0) =
     Inr \<lparr>status = 200, chunks = [''hello''], aborted = None\<rparr> \<and>
   conversation_id \<lparr>conversation_id = ''dog'', message = ''woof''\<rparr> \<noteq> ''cat'' \<and>
   fst (serve_chat stub_counting environ0 Map.empty
          \<lparr>conversation_id = ''cat'', message = ''size?''\<rparr>
          (serve_all stub_counting environ0 Map.empty
             [\<lparr>conversation_id = ''dog'', message = ''woof''\<rparr>]
             (snd (serve_chat stub_counting environ0 Map.empty
                \<lparr>conversation_id = ''cat'', message = ''hello''\<rparr> process0)))) =
     Inr \<lparr>status = 200, chunks = [''+'', ''+'', ''size?''], aborted = None\<rparr>"
proof -
  let ?d1 = "\<lparr>conversation_id = ''cat'', message = ''hello''\<rparr>"
  let ?d2 = "\<lparr>conversation_id = ''cat'', message = ''size?''\<rparr>"
  let ?ds = "[\<lparr>conversation_id = ''dog'', message = ''woof''\<rparr>]"
  let ?x1 = "\<lparr>status = 200, chunks = [''hello''], aborted = None\<rparr>"
  let ?sv1 = "serve_chat stub_counting environ0 Map.empty ?d1 process0"
  let ?p2 = "serve_all stub_counting environ0 Map.empty ?ds (snd ?sv1)"
  let ?sv2 = "serve_chat stub_counting environ0 Map.empty ?d2 ?p2"
  have start: "run_process stub_counting environ0 Map.empty [] = Inr process0"
    by (simp add: process_defs)
  have f1: "fst ?sv1 = Inr ?x1"
    by (simp add: process_defs eval_defs)
  then have first: "?sv1 = (Inr ?x1, snd ?sv1)"
    by (simp add: prod_eq_iff)
  have completed: "aborted ?x1 = None" by simp
  have s0: "cached (settings process0) = Some \<lparr>openai_api_key = ''sk-test''\<rparr>"
    by (simp add: process_defs)
  have s1: "settings (snd ?sv1) = settings process0"
    by (rule serve_chat_settings [OF s0])
  with s0 have c1: "cached (settings (snd ?sv1)) = Some \<lparr>openai_api_key = ''sk-test''\<rparr>"
    by simp
  have "settings ?p2 = settings (snd ?sv1)"
    by (rule serve_all_settings [OF c1])
  with c1 have c2: "cached (settings ?p2) \<noteq> None" by simp
  then have "\<exists>x. fst ?sv2 = Inr x"
    by (auto simp: serve_chat_unfold get_settings_def Let_def)
  then obtain x2 where f2: "fst ?sv2 = Inr x2" by blast
  then have second: "?sv2 = (Inr x2, snd ?sv2)"
    by (simp add: prod_eq_iff)
  have x2s: "status x2 = 200"
    using f2 c2 by (auto simp: serve_chat_unfold get_settings_def Let_def)
  have h0: "process_history process0 ''cat'' = []"
    by (simp add: process_history_def process_defs eval_defs)
  have others: "\<forall>d \<in> set ?ds. conversation_id d \<noteq> ''cat''" by simp
  from memory_accumulates [OF start first completed refl second] others h0
  have "(chunks x2, aborted x2) = ([''+'', ''+'', ''size?''], None)"
    by (auto simp: stub_counting_def body_def)
  with x2s have "x2 = \<lparr>status = 200, chunks = [''+'', ''+'', ''size?''], aborted = None\<rparr>"
    by simp
  with start f1 f2 others show ?thesis by simp
qed

text \<open>
  C2: two distinct conversation identifiers never share memory state.  A request under
  \<open>cid\<close> leaves the slot of every other identifier as it was, and the two identifiers
  are bound to different memory objects.  What the request reads of the store is the
  history under \<open>cid\<close>: that history is what the generation call is given, and what
  the request writes to the slot of \<open>cid\<close> is that history followed by the request's
  own exchange (nothing when the generation failed), so nothing of another conversation
  enters it.  In any other state with the same client configuration, call count and
  history under \<open>cid\<close>, whatever the other slots hold, the request yields the same
  and leaves the same history under \<open>cid\<close>.
\<close>

theorem distinct_ids_do_not_share_memory:
  assumes ok: "store_ok self s" and ne: "cid \<noteq> other"
    and run: "generate_response rem self cid msg s = (out, self1, s1)"
  shows "slot self1 s1 other = slot self s other \<and>
         (\<forall>a b. memories self1 cid = Some a \<and> memories self1 other = Some b \<longrightarrow> a \<noteq> b) \<and>
         out = rem (llm_of self) (llm_calls s) (history_of self s cid) msg \<and>
         history_of self1 s1 cid =
           history_of self s cid @
             (case snd out of
                None \<Rightarrow> [HumanMessage msg, AIMessage (concat (fst out))]
              | Some e \<Rightarrow> []) \<and>
         (\<forall>self' s'. llm_of self' = llm_of self \<and> llm_calls s' = llm_calls s \<and>
              history_of self' s' cid = history_of self s cid \<longrightarrow>
              fst (generate_response rem self' cid msg s') = out \<and>
              history_of (fst (snd (generate_response rem self' cid msg s')))
                (snd (snd (generate_response rem self' cid msg s'))) cid =
                history_of self1 s1 cid)"
proof (intro conjI allI impI)
  have mem: "memories self1 other = memories self other"
    using generate_response_memories [of rem self cid msg s] run ne
    by (simp split: option.splits)
  show "slot self1 s1 other = slot self s other"
  proof (cases "memories self other")
    case None
    with mem show ?thesis by (simp add: slot_def)
  next
    case (Some b)
    have "heap s1 b = heap s b"
      using generate_response_heap_other [OF ok Some, of cid rem msg] ne run by simp
    with mem Some show ?thesis by (simp add: slot_def)
  qed
next
  fix a b
  assume ab: "memories self1 cid = Some a \<and> memories self1 other = Some b"
  have "store_ok self1 s1"
    using ok_generate_response [OF ok, of rem cid msg] run by simp
  with ab ne show "a \<noteq> b" unfolding store_ok_def by blast
next
  show out: "out = rem (llm_of self) (llm_calls s) (history_of self s cid) msg"
    using generate_response_out [of rem self cid msg s] run by simp
  show written: "history_of self1 s1 cid =
           history_of self s cid @
             (case snd out of
                None \<Rightarrow> [HumanMessage msg, AIMessage (concat (fst out))]
              | Some e \<Rightarrow> [])"
    using history_same [of rem self cid msg s] run by (simp split: option.splits)
  fix self' s'
  assume same: "llm_of self' = llm_of self \<and> llm_calls s' = llm_calls s \<and>
     history_of self' s' cid = history_of self s cid"
  then show out': "fst (generate_response rem self' cid msg s') = out"
    using out by (simp add: generate_response_out)
  from same out' written
  show "history_of (fst (snd (generate_response rem self' cid msg s')))
                (snd (snd (generate_response rem self' cid msg s'))) cid =
                history_of self1 s1 cid"
    using history_same [of rem self' cid msg s'] by (simp split: option.splits)
qed

theorem distinct_ids_do_not_share_memory_witness:
  "store_ok (fst (snd after_cat)) (snd (snd after_cat)) \<and> ''dog'' \<noteq> ''cat'' \<and>
   slot (fst (snd after_cat)) (snd (snd after_cat)) ''cat'' =
     Some [HumanMessage ''hello'', AIMessage ''hello''] \<and>
   fst (generate_response stub_counting (fst (snd after_cat)) ''dog'' ''woof''
          (snd (snd after_cat))) = ([''woof''], None) \<and>
   slot (fst (snd (generate_response stub_counting (fst (snd after_cat)) ''dog'' ''woof''
                     (snd (snd after_cat)))))
        (snd (snd (generate_response stub_counting (fst (snd after_cat)) ''dog'' ''woof''
                     (snd (snd after_cat))))) ''cat'' =
     Some [HumanMessage ''hello'', AIMessage ''hello''] \<and>
   history_of (fst (snd (generate_response stub_counting (fst (snd after_cat)) ''dog'' ''woof''
                     (snd (snd after_cat)))))
        (snd (snd (generate_response stub_counting (fst (snd after_cat)) ''dog'' ''woof''
                     (snd (snd after_cat))))) ''dog'' =
     [HumanMessage ''woof'', AIMessage ''woof'']"
proof -
  let ?g = "generate_response stub_counting (fst (snd after_cat)) ''dog'' ''woof''
              (snd (snd after_cat))"
  have ne: "''dog'' \<noteq> ''cat''" by simp
  have g: "?g = (fst ?g, fst (snd ?g), snd (snd ?g))" by simp
  have s: "slot (fst (snd after_cat)) (snd (snd after_cat)) ''cat'' =
      Some [HumanMessage ''hello'', AIMessage ''hello'']"
    by (simp add: after_cat_def eval_defs)
  have h: "history_of (fst (snd after_cat)) (snd (snd after_cat)) ''dog'' = []"
    by (simp add: after_cat_def eval_defs)
  from distinct_ids_do_not_share_memory [OF after_cat_ok ne g] s h after_cat_ok
  show ?thesis by (simp add: stub_counting_def)
qed

text \<open>
  C3: the chunks of the response body are the token fragments of the model, one chunk per
  fragment, in the order the model produced them and with nothing added; the body is
  their concatenation; the stream ends when the generation ends (with the exception of the
  generation, if it ended with one).
\<close>

theorem response_body_is_token_concatenation:
  assumes served: "serve_chat rem E F d p = (Inr x, p1)"
    and gen: "r = rem (llm_of (streaming_conversation_chain p)) (llm_calls (objects p))
                (history_of (streaming_conversation_chain p) (objects p) (conversation_id d))
                (message d)"
  shows "chunks x = fst r \<and> body x = concat (fst r) \<and> aborted x = snd r"
  using served gen generate_response_out
    [of rem "streaming_conversation_chain p" "conversation_id d" "message d" "objects p"]
  by (auto simp: serve_chat_unfold body_def Let_def split: prod.splits sum.splits)

theorem response_body_is_token_concatenation_witness:
  "fst (serve_chat stub_counting environ0 Map.empty
          \<lparr>conversation_id = ''cat'', message = ''size?''\<rparr>
          (snd (serve_chat stub_counting environ0 Map.empty
             \<lparr>conversation_id = ''cat'', message = ''hello''\<rparr> process0))) = Inr
     \<lparr>status = 200, chunks = [''+'', ''+'', ''size?''], aborted = None\<rparr> \<and>
   body \<lparr>status = 200, chunks = [''+'', ''+'', ''size?''], aborted = None\<rparr> = ''++size?''"
proof -
  let ?d1 = "\<lparr>conversation_id = ''cat'', message = ''hello''\<rparr>"
  let ?d = "\<lparr>conversation_id = ''cat'', message = ''size?''\<rparr>"
  let ?x = "\<lparr>status = 200, chunks = [''+'', ''+'', ''size?''], aborted = None\<rparr>"
  let ?p1 = "snd (serve_chat stub_counting environ0 Map.empty ?d1 process0)"
  let ?sv = "serve_chat stub_counting environ0 Map.empty ?d ?p1"
  have f: "fst ?sv = Inr ?x"
    by (simp add: process_defs eval_defs)
  then have sv: "?sv = (Inr ?x, snd ?sv)"
    by (simp add: prod_eq_iff)
  from response_body_is_token_concatenation [OF sv refl] f show ?thesis
    by (simp add: body_def)
qed

text \<open>
  C4: the memory slot is retrieved or lazily created.  Without a slot for the identifier,
  a new memory object, at an address no identifier is bound to, is made empty and stored
  under the identifier, and the generation call sees the empty history; with a slot, the
  same object is used, the dictionary is left as it was, and the generation call sees the
  history of that object.
\<close>

theorem memory_slot_created_lazily:
  assumes ok: "store_ok self s"
    and run: "generate_response rem self cid msg s = (out, self1, s1)"
  shows "(memories self cid = None \<longrightarrow>
            memories self1 = (memories self)(cid \<mapsto> next_addr s) \<and>
            next_addr s \<notin> ran (memories self) \<and>
            fst (get_or_create_memory self cid s) = next_addr s \<and>
            heap (snd (snd (get_or_create_memory self cid s))) (next_addr s) = [] \<and>
            out = rem (llm_of self) (llm_calls s) [] msg) \<and>
         (\<forall>m. memories self cid = Some m \<longrightarrow>
            memories self1 = memories self \<and>
            get_or_create_memory self cid s = (m, self, s) \<and>
            out = rem (llm_of self) (llm_calls s) (heap s m) msg)"
proof (intro conjI allI impI)
  assume none: "memories self cid = None"
  from none run show "memories self1 = (memories self)(cid \<mapsto> next_addr s)"
    using generate_response_memories [of rem self cid msg s] by simp
  from ok show "next_addr s \<notin> ran (memories self)"
    unfolding store_ok_def ran_def by fastforce
  from none show "fst (get_or_create_memory self cid s) = next_addr s"
    by (simp add: get_or_create_memory_def ConversationBufferMemory_new_def)
  from none show "heap (snd (snd (get_or_create_memory self cid s))) (next_addr s) = []"
    by (simp add: get_or_create_memory_def ConversationBufferMemory_new_def)
  from none run show "out = rem (llm_of self) (llm_calls s) [] msg"
    using generate_response_out [of rem self cid msg s] by (simp add: history_of_def)
next
  fix m assume some: "memories self cid = Some m"
  from some run show "memories self1 = memories self"
    using generate_response_memories [of rem self cid msg s] by simp
  from some show "get_or_create_memory self cid s = (m, self, s)"
    by (simp add: get_or_create_memory_def)
  from some run show "out = rem (llm_of self) (llm_calls s) (heap s m) msg"
    using generate_response_out [of rem self cid msg s] by (simp add: history_of_def)
qed

theorem memory_slot_created_lazily_witness:
  "store_ok chain0 empty_store \<and> memories chain0 ''cat'' = None \<and>
   memories (fst (snd after_cat)) = (memories chain0)(''cat'' \<mapsto> 0) \<and>
   heap (snd (snd (get_or_create_memory chain0 ''cat'' empty_store))) 0 = [] \<and>
   fst after_cat = ([''hello''], None) \<and>
   store_ok (fst (snd after_cat)) (snd (snd after_cat)) \<and>
   memories (fst (snd after_cat)) ''cat'' = Some 0 \<and>
   memories (fst (snd (generate_response stub_counting (fst (snd after_cat)) ''cat'' ''size?''
                         (snd (snd after_cat))))) = memories (fst (snd after_cat)) \<and>
   fst (generate_response stub_counting (fst (snd after_cat)) ''cat'' ''size?''
          (snd (snd after_cat))) = ([''+'', ''+'', ''size?''], None)"
proof -
  let ?g2 = "generate_response stub_counting (fst (snd after_cat)) ''cat'' ''size?''
      (snd (snd after_cat))"
  have ok: "store_ok chain0 empty_store"
    unfolding chain0_def by (rule ok_init)
  have g: "generate_response stub_counting chain0 ''cat'' ''hello'' empty_store =
      (fst after_cat, fst (snd after_cat), snd (snd after_cat))"
    by (simp add: after_cat_def)
  have none: "memories chain0 ''cat'' = None" by (simp add: eval_defs)
  have first: "memories (fst (snd after_cat)) = (memories chain0)(''cat'' \<mapsto> 0) \<and>
      heap (snd (snd (get_or_create_memory chain0 ''cat'' empty_store))) 0 = [] \<and>
      fst after_cat = ([''hello''], None)"
    using memory_slot_created_lazily [OF ok g] none
    by (simp add: empty_store_def stub_counting_def)
  have g2: "?g2 = (fst ?g2, fst (snd ?g2), snd (snd ?g2))" by simp
  have some: "memories (fst (snd after_cat)) ''cat'' = Some 0"
    using first by simp
  have h: "heap (snd (snd after_cat)) 0 = [HumanMessage ''hello'', AIMessage ''hello'']"
    by (simp add: after_cat_def eval_defs)
  have second: "memories (fst (snd ?g2)) = memories (fst (snd after_cat)) \<and>
      fst ?g2 = ([''+'', ''+'', ''size?''], None)"
    using memory_slot_created_lazily [OF after_cat_ok g2] some h
    by (simp add: stub_counting_def)
  from ok none first after_cat_ok some second show ?thesis by simp
qed

text \<open>
  C5: when the API key is in neither the environment nor the environment file, running the
  module fails with the validation error of the settings, and the process serves no
  request, whatever requests are waiting.
\<close>

theorem missing_api_key_prevents_startup:
  assumes "environ ''openai_api_key'' = None" and "dotenv ''openai_api_key'' = None"
  shows "module_init environ dotenv = Inl ValidationError \<and>
         run_process rem environ dotenv ds = Inl ValidationError"
  using assms
  by (simp add: run_process_def module_init_def get_settings_def Settings_init_def)

theorem missing_api_key_prevents_startup_witness:
  "[''path'' \<mapsto> ''/usr/bin''] ''openai_api_key'' = None \<and>
   (Map.empty :: env) ''openai_api_key'' = None \<and>
   run_process stub_counting [''path'' \<mapsto> ''/usr/bin''] Map.empty
     [\<lparr>conversation_id = ''cat'', message = ''hello''\<rparr>] = Inl ValidationError"
  using missing_api_key_prevents_startup [of "[''path'' \<mapsto> ''/usr/bin'']" Map.empty
      stub_counting "[\<lparr>conversation_id = ''cat'', message = ''hello''\<rparr>]"]
  by simp

text \<open>
  C7: the dictionary of memories only grows.  An identifier bound to a memory object stays
  bound to that same object through any one request and through any sequence of requests.
\<close>

theorem memories_only_grow:
  assumes "memories (streaming_conversation_chain p) k = Some a"
  shows "memories (streaming_conversation_chain (serve_all rem E F ds p)) k = Some a \<and>
         memories (fst (snd (generate_response rem (streaming_conversation_chain p) cid msg
            (objects p)))) k = Some a"
proof
  from assms show "memories (streaming_conversation_chain (serve_all rem E F ds p)) k = Some a"
    by (induction ds arbitrary: p) (simp_all add: serve_chat_memories)
  from assms show "memories (fst (snd (generate_response rem (streaming_conversation_chain p)
      cid msg (objects p)))) k = Some a"
    by (auto simp: generate_response_memories split: option.splits)
qed

theorem memories_only_grow_witness:
  "memories (streaming_conversation_chain
      (serve_all stub_counting environ0 Map.empty
         [\<lparr>conversation_id = ''cat'', message = ''hello''\<rparr>] process0)) ''cat'' = Some 0 \<and>
   memories (streaming_conversation_chain
      (serve_all stub_counting environ0 Map.empty
         [\<lparr>conversation_id = ''dog'', message = ''woof''\<rparr>,
          \<lparr>conversation_id = ''cat'', message = ''size?''\<rparr>]
         (serve_all stub_counting environ0 Map.empty
            [\<lparr>conversation_id = ''cat'', message = ''hello''\<rparr>] process0))) ''cat'' = Some 0"
proof -
  let ?p1 = "serve_all stub_counting environ0 Map.empty
         [\<lparr>conversation_id = ''cat'', message = ''hello''\<rparr>] process0"
  have a: "memories (streaming_conversation_chain ?p1) ''cat'' = Some 0"
    by (simp add: process_defs eval_defs)
  from memories_only_grow [OF a, where rem = stub_counting and E = environ0
      and F = Map.empty and ds = "[\<lparr>conversation_id = ''dog'', message = ''woof''\<rparr>,
          \<lparr>conversation_id = ''cat'', message = ''size?''\<rparr>]"] a
  show ?thesis by simp
qed

text \<open>
  C8, as amended: when the model backend produces at least one non-empty token fragment,
  the concatenated content of the response stream is non-empty (whatever the input
  message is).
\<close>

theorem nonempty_fragment_gives_nonempty_body:
  assumes served: "serve_chat rem E F d p = (Inr x, p1)"
    and frag: "t \<in> set (fst (rem (llm_of (streaming_conversation_chain p)) (llm_calls (objects p))
                (history_of (streaming_conversation_chain p) (objects p) (conversation_id d))
                (message d)))"
    and ne: "t \<noteq> []"
  shows "body x \<noteq> []"
proof -
  have "chunks x = fst (rem (llm_of (streaming_conversation_chain p)) (llm_calls (objects p))
                (history_of (streaming_conversation_chain p) (objects p) (conversation_id d))
                (message d))"
    using served generate_response_out
      [of rem "streaming_conversation_chain p" "conversation_id d" "message d" "objects p"]
    by (auto simp: serve_chat_unfold Let_def split: prod.splits sum.splits)
  with frag ne show ?thesis by (auto simp: body_def)
qed

theorem nonempty_fragment_gives_nonempty_body_witness:
  "fst (serve_chat stub_counting environ0 Map.empty
      \<lparr>conversation_id = ''cat'', message = ''hello''\<rparr> process0) =
     Inr \<lparr>status = 200, chunks = [''hello''], aborted = None\<rparr> \<and>
   ''hello'' \<in> set [''hello''] \<and> ''hello'' \<noteq> [] \<and>
   body \<lparr>status = 200, chunks = [''hello''], aborted = None\<rparr> \<noteq> []"
proof -
  let ?d = "\<lparr>conversation_id = ''cat'', message = ''hello''\<rparr>"
  let ?x = "\<lparr>status = 200, chunks = [''hello''], aborted = None\<rparr>"
  let ?sv = "serve_chat stub_counting environ0 Map.empty ?d process0"
  have sv: "?sv = (Inr ?x, snd ?sv)"
    by (simp add: process_defs eval_defs)
  have fr: "''hello'' \<in> set (fst (stub_counting (llm_of (streaming_conversation_chain process0))
       (llm_calls (objects process0))
       (history_of (streaming_conversation_chain process0) (objects process0) (conversation_id ?d))
       (message ?d)))"
    by (simp add: process_defs eval_defs)
  have ne: "''hello'' \<noteq> []" by simp
  have f: "fst ?sv = Inr ?x"
    by (simp add: process_defs eval_defs)
  from nonempty_fragment_gives_nonempty_body [OF sv fr ne] f show ?thesis by simp
qed

text \<open>
  C8 as stated fails: for a non-empty input message and a backend that produces one token
  fragment, the empty string, the response stream's concatenated content is empty.
\<close>

theorem empty_fragment_empty_body_counterexample:
  "message \<lparr>conversation_id = ''cat'', message = ''hello''\<rparr> \<noteq> [] \<and>
   fst (stub_blank (llm_of (streaming_conversation_chain process0)) (llm_calls (objects process0))
         (history_of (streaming_conversation_chain process0) (objects process0) ''cat'')
         ''hello'') \<noteq> [] \<and>
   fst (serve_chat stub_blank environ0 Map.empty
      \<lparr>conversation_id = ''cat'', message = ''hello''\<rparr> process0) =
     Inr \<lparr>status = 200, chunks = [''''], aborted = None\<rparr> \<and>
   body \<lparr>status = 200, chunks = [''''], aborted = None\<rparr> = []"
  by (simp add: process_defs eval_defs body_def)

text \<open>
  C9: the endpoint returns its response without running the generator, so the status is
  200 whatever the remote call will do; in a started process a request is always answered
  with status 200, and the failure of the generation, if any, appears as the end of the
  body stream, after the fragments produced before it.
\<close>

theorem status_fixed_before_generation:
  "status_code (generate_response_endpoint rem d) = 200 \<and>
   status_code (generate_response_endpoint rem d) =
     status_code (generate_response_endpoint rem' d) \<and>
   (cached (settings p) \<noteq> None \<longrightarrow>
      (\<exists>x p1. serve_chat rem E F d p = (Inr x, p1) \<and> status x = 200 \<and>
         (chunks x, aborted x) =
           rem (llm_of (streaming_conversation_chain p)) (llm_calls (objects p))
             (history_of (streaming_conversation_chain p) (objects p) (conversation_id d))
             (message d)))"
proof (intro conjI impI)
  show "status_code (generate_response_endpoint rem d) = 200"
    by (simp add: generate_response_endpoint_def)
  show "status_code (generate_response_endpoint rem d) =
     status_code (generate_response_endpoint rem' d)"
    by (simp add: generate_response_endpoint_def)
next
  assume "cached (settings p) \<noteq> None"
  then obtain st where st: "cached (settings p) = Some st" by blast
  let ?g = "generate_response rem (streaming_conversation_chain p) (conversation_id d)
      (message d) (objects p)"
  have "serve_chat rem E F d p =
      (Inr \<lparr>status = 200, chunks = fst (fst ?g), aborted = snd (fst ?g)\<rparr>,
       p\<lparr>settings := settings p, streaming_conversation_chain := fst (snd ?g),
         objects := snd (snd ?g)\<rparr>)"
    using st by (simp add: serve_chat_unfold get_settings_def Let_def)
  moreover have "(fst (fst ?g), snd (fst ?g)) =
      rem (llm_of (streaming_conversation_chain p)) (llm_calls (objects p))
        (history_of (streaming_conversation_chain p) (objects p) (conversation_id d))
        (message d)"
    by (simp add: generate_response_out)
  ultimately show "\<exists>x p1. serve_chat rem E F d p = (Inr x, p1) \<and> status x = 200 \<and>
         (chunks x, aborted x) =
           rem (llm_of (streaming_conversation_chain p)) (llm_calls (objects p))
             (history_of (streaming_conversation_chain p) (objects p) (conversation_id d))
             (message d)"
    by simp
qed

theorem status_fixed_before_generation_witness:
  "cached (settings process0) \<noteq> None \<and>
   (\<exists>x p1. serve_chat stub_failing environ0 Map.empty
        \<lparr>conversation_id = ''cat'', message = ''hello''\<rparr> process0 = (Inr x, p1) \<and>
      status x = 200 \<and>
      (chunks x, aborted x) = ([''Hel''], Some (RemoteCallError ''timeout'')))"
proof -
  have c: "cached (settings process0) \<noteq> None"
    by (simp add: process_defs)
  from status_fixed_before_generation [where p = process0 and rem = stub_failing
      and E = environ0 and F = Map.empty
      and d = "\<lparr>conversation_id = ''cat'', message = ''hello''\<rparr>"] c
  show ?thesis by (simp add: stub_failing_def)
qed

text \<open>
  C10: once \<^verbatim>\<open>get_settings\<close> has returned a settings object, every later call returns
  that object and reads nothing, whatever the environment is by then; one call reads at
  most once; in a process that started, the environment and the environment file have
  been read exactly once, at import, however many requests were served.
\<close>

theorem get_settings_is_cached:
  "(get_settings E F c = (Inr st, c1) \<longrightarrow> get_settings E' F' c1 = (Inr st, c1)) \<and>
   env_reads (snd (get_settings E F c)) \<le> Suc (env_reads c) \<and>
   (run_process rem E F ds = Inr p \<longrightarrow>
      env_reads (settings p) = 1 \<and>
      (\<exists>st0. get_settings E F \<lparr>cached = None, env_reads = 0\<rparr> = (Inr st0, settings p) \<and>
         get_settings E' F' (settings p) = (Inr st0, settings p)))"
proof (intro conjI impI)
  assume "get_settings E F c = (Inr st, c1)"
  then have "cached c1 = Some st"
    by (auto simp: get_settings_def split: option.splits sum.splits)
  then show "get_settings E' F' c1 = (Inr st, c1)" by (rule get_settings_cached)
next
  show "env_reads (snd (get_settings E F c)) \<le> Suc (env_reads c)"
    by (simp add: get_settings_def split: option.splits sum.splits)
next
  assume run: "run_process rem E F ds = Inr p"
  then obtain p0 where p0: "module_init E F = Inr p0" and p: "p = serve_all rem E F ds p0"
    by (auto simp: run_process_def split: sum.splits)
  from p0 obtain st0 where first: "get_settings E F \<lparr>cached = None, env_reads = 0\<rparr> =
      (Inr st0, settings p0)"
    by (auto simp: module_init_def split: prod.splits sum.splits)
  then have fs: "fst (get_settings E F \<lparr>cached = None, env_reads = 0\<rparr>) = Inr st0"
    and sn: "snd (get_settings E F \<lparr>cached = None, env_reads = 0\<rparr>) = settings p0"
    by simp_all
  from fs have "cached (snd (get_settings E F \<lparr>cached = None, env_reads = 0\<rparr>)) = Some st0"
    and "env_reads (snd (get_settings E F \<lparr>cached = None, env_reads = 0\<rparr>)) = 1"
    by (simp_all add: get_settings_def split: sum.splits)
  then have c: "cached (settings p0) = Some st0" and r: "env_reads (settings p0) = 1"
    by (simp_all only: sn)
  from c p have same: "settings p = settings p0" by (simp add: serve_all_settings)
  with r show "env_reads (settings p) = 1" by simp
  from same c first
  show "\<exists>st0. get_settings E F \<lparr>cached = None, env_reads = 0\<rparr> = (Inr st0, settings p) \<and>
         get_settings E' F' (settings p) = (Inr st0, settings p)"
    by (simp add: get_settings_cached)
qed

theorem get_settings_is_cached_witness:
  "get_settings environ0 Map.empty \<lparr>cached = None, env_reads = 0\<rparr> =
     (Inr \<lparr>openai_api_key = ''sk-test''\<rparr>,
      \<lparr>cached = Some \<lparr>openai_api_key = ''sk-test''\<rparr>, env_reads = 1\<rparr>) \<and>
   get_settings Map.empty Map.empty
      \<lparr>cached = Some \<lparr>openai_api_key = ''sk-test''\<rparr>, env_reads = 1\<rparr> =
     (Inr \<lparr>openai_api_key = ''sk-test''\<rparr>,
      \<lparr>cached = Some \<lparr>openai_api_key = ''sk-test''\<rparr>, env_reads = 1\<rparr>) \<and>
   run_process stub_counting environ0 Map.empty
      [\<lparr>conversation_id = ''cat'', message = ''hello''\<rparr>] =
     Inr (serve_all stub_counting environ0 Map.empty
      [\<lparr>conversation_id = ''cat'', message = ''hello''\<rparr>] process0) \<and>
   env_reads (settings (serve_all stub_counting environ0 Map.empty
      [\<lparr>conversation_id = ''cat'', message = ''hello''\<rparr>] process0)) = 1"
proof -
  let ?c1 = "\<lparr>cached = Some \<lparr>openai_api_key = ''sk-test''\<rparr>, env_reads = 1\<rparr>"
  let ?ds = "[\<lparr>conversation_id = ''cat'', message = ''hello''\<rparr>]"
  have a: "get_settings environ0 Map.empty \<lparr>cached = None, env_reads = 0\<rparr> =
      (Inr \<lparr>openai_api_key = ''sk-test''\<rparr>, ?c1)"
    by (simp add: get_settings_def Settings_init_def environ0_def)
  have b: "run_process stub_counting environ0 Map.empty ?ds =
      Inr (serve_all stub_counting environ0 Map.empty ?ds process0)"
    by (simp add: run_process_def module_init_def process0_def a)
  from get_settings_is_cached [where E = environ0 and F = Map.empty
      and c = "\<lparr>cached = None, env_reads = 0\<rparr>" and st = "\<lparr>openai_api_key = ''sk-test''\<rparr>"
      and ?c1.0 = ?c1 and E' = Map.empty and F' = Map.empty and rem = stub_counting
      and ds = ?ds
      and p = "serve_all stub_counting environ0 Map.empty ?ds process0"] a b
  show ?thesis by simp
qed

text \<open>
  C6 as stated fails: none of the three failures becomes a generic server error response.
  A failure of the remote call ends the body stream of a response that has status 200 and
  carries the fragments produced before the failure.  A request body without the required
  field \<^verbatim>\<open>message\<close> is answered with status 422 and a structured payload, the list
  of the validation errors.  With the configuration missing there is no response at all:
  the process serves nothing.
\<close>

theorem failures_are_not_server_errors_counterexample:
  "fst (post_chat stub_failing environ0 Map.empty
      [''conversation_id'' \<mapsto> ''cat'', ''message'' \<mapsto> ''hello''] process0) =
     Inr (Streamed
       \<lparr>status = 200, chunks = [''Hel''], aborted = Some (RemoteCallError ''timeout'')\<rparr>) \<and>
   fst (post_chat stub_counting environ0 Map.empty
      [''conversation_id'' \<mapsto> ''cat''] process0) = Inr (Unprocessable 422 [''message'']) \<and>
   run_process stub_counting Map.empty Map.empty
      [\<lparr>conversation_id = ''cat'', message = ''hello''\<rparr>] = Inl ValidationError"
  by (simp add: post_chat_def ChatRequest_validate_def process_defs eval_defs)

text \<open>
  C6, as amended: remote-call failures, malformed requests and missing configuration are
  not caught by any application code, and the application code makes no retry and builds
  no error payload; none of them becomes a generic server error response.

  \<^item> The exception of the one run of the chain ends the generator, after the fragments
    produced before it, also for a remote that would answer a repeated call: a request
    consults the remote at the current call only.
  \<^item> In a started process, a well-formed request whose remote call fails is answered with
    status 200; its chunks are the fragments of the remote, with nothing added, and the
    exception ends the body stream.
  \<^item> In a started process, a request body lacking a required field is answered by the
    framework's validation with status 422 and the list of the missing fields; the
    endpoint does not run and the process is left as it was.
  \<^item> The exception of the settings leaves the module's initialisation, and the process
    serves nothing.
\<close>

theorem failures_propagate_uncaught:
  "(snd (rem (llm_of self) (llm_calls s) (history_of self s cid) msg) = Some e \<longrightarrow>
      fst (generate_response rem self cid msg s) =
        (fst (rem (llm_of self) (llm_calls s) (history_of self s cid) msg), Some e)) \<and>
   ((\<forall>llm h m. rem' llm (llm_calls s) h m = rem llm (llm_calls s) h m) \<longrightarrow>
      generate_response rem' self cid msg s = generate_response rem self cid msg s) \<and>
   (cached (settings p) \<noteq> None \<and> ChatRequest_validate raw = Inr d \<and>
    snd (rem (llm_of (streaming_conversation_chain p)) (llm_calls (objects p))
          (history_of (streaming_conversation_chain p) (objects p) (conversation_id d))
          (message d)) = Some e \<longrightarrow>
      (\<exists>x p1. post_chat rem E F raw p = (Inr (Streamed x), p1) \<and> status x = 200 \<and>
         chunks x = fst (rem (llm_of (streaming_conversation_chain p)) (llm_calls (objects p))
          (history_of (streaming_conversation_chain p) (objects p) (conversation_id d))
          (message d)) \<and>
         aborted x = Some e)) \<and>
   (cached (settings p) \<noteq> None \<and> ChatRequest_validate raw' = Inl errors \<longrightarrow>
      post_chat rem E F raw' p = (Inr (Unprocessable 422 errors), p) \<and> errors \<noteq> [] \<and>
      set errors = {f \<in> {''conversation_id'', ''message''}. raw' f = None}) \<and>
   (Settings_init environ dotenv = Inl e' \<longrightarrow>
      module_init environ dotenv = Inl e' \<and> run_process rem environ dotenv ds = Inl e')"
proof (intro conjI impI)
  assume "snd (rem (llm_of self) (llm_calls s) (history_of self s cid) msg) = Some e"
  then show "fst (generate_response rem self cid msg s) =
        (fst (rem (llm_of self) (llm_calls s) (history_of self s cid) msg), Some e)"
    by (simp add: generate_response_out prod_eq_iff)
next
  assume "\<forall>llm h m. rem' llm (llm_calls s) h m = rem llm (llm_calls s) h m"
  then show "generate_response rem' self cid msg s = generate_response rem self cid msg s"
    by (cases "memories self cid")
       (simp_all add: generate_response_new generate_response_old Let_def)
next
  assume a: "cached (settings p) \<noteq> None \<and> ChatRequest_validate raw = Inr d \<and>
    snd (rem (llm_of (streaming_conversation_chain p)) (llm_calls (objects p))
          (history_of (streaming_conversation_chain p) (objects p) (conversation_id d))
          (message d)) = Some e"
  then obtain st where st: "cached (settings p) = Some st" by blast
  let ?g = "generate_response rem (streaming_conversation_chain p) (conversation_id d)
      (message d) (objects p)"
  have "serve_chat rem E F d p =
      (Inr \<lparr>status = 200, chunks = fst (fst ?g), aborted = snd (fst ?g)\<rparr>,
       p\<lparr>settings := settings p, streaming_conversation_chain := fst (snd ?g),
         objects := snd (snd ?g)\<rparr>)"
    using st by (simp add: serve_chat_unfold get_settings_def Let_def)
  with a have "post_chat rem E F raw p =
      (Inr (Streamed \<lparr>status = 200, chunks = fst (fst ?g), aborted = snd (fst ?g)\<rparr>),
       p\<lparr>settings := settings p, streaming_conversation_chain := fst (snd ?g),
         objects := snd (snd ?g)\<rparr>)"
    by (simp add: post_chat_def)
  moreover have "snd (fst ?g) = Some e"
    using a by (simp add: generate_response_out)
  moreover have "fst (fst ?g) =
      fst (rem (llm_of (streaming_conversation_chain p)) (llm_calls (objects p))
          (history_of (streaming_conversation_chain p) (objects p) (conversation_id d))
          (message d))"
    by (simp add: generate_response_out)
  ultimately show "\<exists>x p1. post_chat rem E F raw p = (Inr (Streamed x), p1) \<and> status x = 200 \<and>
         chunks x = fst (rem (llm_of (streaming_conversation_chain p)) (llm_calls (objects p))
          (history_of (streaming_conversation_chain p) (objects p) (conversation_id d))
          (message d)) \<and>
         aborted x = Some e"
    by simp
next
  assume a: "cached (settings p) \<noteq> None \<and> ChatRequest_validate raw' = Inl errors"
  then obtain st where st: "cached (settings p) = Some st" by blast
  with a show "post_chat rem E F raw' p = (Inr (Unprocessable 422 errors), p)"
    by (simp add: post_chat_def get_settings_def)
  from a have "ChatRequest_validate raw' = Inl errors" by simp
  then show "errors \<noteq> []" by (rule validate_errors_nonempty)
  from a have "ChatRequest_validate raw' = Inl errors" by simp
  then have "errors = filter (\<lambda>f. raw' f = None) [''conversation_id'', ''message'']"
    by (rule validate_errors)
  then have "set errors = set (filter (\<lambda>f. raw' f = None) [''conversation_id'', ''message''])"
    by (rule arg_cong)
  then show "set errors = {f \<in> {''conversation_id'', ''message''}. raw' f = None}"
    unfolding set_filter by auto
next
  assume "Settings_init environ dotenv = Inl e'"
  then show "module_init environ dotenv = Inl e'"
    by (simp add: module_init_def get_settings_def)
  then show "run_process rem environ dotenv ds = Inl e'"
    by (simp add: run_process_def)
qed

theorem failures_propagate_uncaught_witness:
  "snd (stub_flaky (llm_of chain0) (llm_calls empty_store)
          (history_of chain0 empty_store ''cat'') ''hello'') = Some (RemoteCallError ''timeout'') \<and>
   snd (stub_flaky (llm_of chain0) (Suc (llm_calls empty_store))
          (history_of chain0 empty_store ''cat'') ''hello'') = None \<and>
   fst (generate_response stub_flaky chain0 ''cat'' ''hello'' empty_store) =
     ([''Hel''], Some (RemoteCallError ''timeout'')) \<and>
   generate_response stub_failing chain0 ''cat'' ''hello'' empty_store =
     generate_response stub_flaky chain0 ''cat'' ''hello'' empty_store \<and>
   cached (settings process0) \<noteq> None \<and>
   ChatRequest_validate [''conversation_id'' \<mapsto> ''cat'', ''message'' \<mapsto> ''hello''] =
     Inr \<lparr>conversation_id = ''cat'', message = ''hello''\<rparr> \<and>
   (\<exists>x p1. post_chat stub_flaky environ0 Map.empty
        [''conversation_id'' \<mapsto> ''cat'', ''message'' \<mapsto> ''hello''] process0 =
          (Inr (Streamed x), p1) \<and>
      status x = 200 \<and> chunks x = [''Hel''] \<and>
      aborted x = Some (RemoteCallError ''timeout'')) \<and>
   ChatRequest_validate [''conversation_id'' \<mapsto> ''cat''] = Inl [''message''] \<and>
   post_chat stub_flaky environ0 Map.empty [''conversation_id'' \<mapsto> ''cat''] process0 =
     (Inr (Unprocessable 422 [''message'']), process0) \<and>
   Settings_init Map.empty Map.empty = Inl ValidationError \<and>
   run_process stub_flaky Map.empty Map.empty
     [\<lparr>conversation_id = ''cat'', message = ''hello''\<rparr>] = Inl ValidationError"
proof -
  let ?raw = "[''conversation_id'' \<mapsto> ''cat'', ''message'' \<mapsto> ''hello'']"
  have c: "cached (settings process0) \<noteq> None"
    by (simp add: process_defs)
  have v: "ChatRequest_validate ?raw = Inr \<lparr>conversation_id = ''cat'', message = ''hello''\<rparr>"
    by (simp add: ChatRequest_validate_def)
  have v': "ChatRequest_validate [''conversation_id'' \<mapsto> ''cat''] = Inl [''message'']"
    by (simp add: ChatRequest_validate_def)
  have i: "Settings_init Map.empty Map.empty = Inl ValidationError"
    by (simp add: Settings_init_def)
  have agree: "\<forall>llm h m. stub_failing llm (llm_calls empty_store) h m =
      stub_flaky llm (llm_calls empty_store) h m"
    by (simp add: stub_failing_def stub_flaky_def empty_store_def)
  have again: "snd (stub_flaky (llm_of chain0) (Suc (llm_calls empty_store))
          (history_of chain0 empty_store ''cat'') ''hello'') = None"
    by (simp add: stub_flaky_def)
  have h: "history_of (streaming_conversation_chain process0) (objects process0) ''cat'' = []"
    by (simp add: process_defs eval_defs)
  have n: "llm_calls (objects process0) = 0"
    by (simp add: process_defs eval_defs)
  from failures_propagate_uncaught [where rem = stub_flaky and rem' = stub_failing
      and self = chain0 and s = empty_store and cid = "''cat''" and msg = "''hello''"
      and e = "RemoteCallError ''timeout''" and p = process0 and raw = ?raw
      and raw' = "[''conversation_id'' \<mapsto> ''cat'']" and errors = "[''message'']"
      and d = "\<lparr>conversation_id = ''cat'', message = ''hello''\<rparr>"
      and E = environ0 and F = Map.empty and environ = Map.empty and dotenv = Map.empty
      and e' = ValidationError
      and ds = "[\<lparr>conversation_id = ''cat'', message = ''hello''\<rparr>]"]
    c v v' i agree again h n
  show ?thesis by (simp add: stub_flaky_def empty_store_def)
qed

end
